theory Spec2Isabelle
  imports Main "HOL-Library.Product_Lexorder"
begin

section \<open>Pentagon International back office: stock accounting and orders\<close>

text \<open>
  A shallow embedding of the business logic of the Flask application under
  \<^verbatim>\<open>pentagon_backend/src\<close>: the models \<^verbatim>\<open>Inventory\<close>, \<^verbatim>\<open>Order\<close>, \<^verbatim>\<open>OrderItem\<close>,
  \<^verbatim>\<open>Product\<close>, \<^verbatim>\<open>User\<close> and the request handlers \<^verbatim>\<open>create_order\<close>, \<^verbatim>\<open>get_order\<close>,
  \<^verbatim>\<open>update_order_status\<close>, \<^verbatim>\<open>create_inventory_record\<close>, \<^verbatim>\<open>update_inventory_record\<close>
  and \<^verbatim>\<open>register\<close>.

  Conventions of the embedding:
  \<^item> a table is the list of its rows in insertion order, a row is a record;
  \<^item> Python integers are \<open>int\<close>; a calendar date is the triple (year, month, day) under
    the lexicographic order, which is the order of \<^verbatim>\<open>datetime.date\<close>; a time stamp is a
    natural number and every read of the clock is a parameter of the handler;
  \<^item> Python floats are an abstract type \<open>'f\<close>: the three float operations the code uses
    (conversion of an integer, addition, multiplication) are the fields of a record that
    every function computing with floats takes as its first argument, so no law of
    arithmetic is assumed of them; the conversion of an integer is total, where Python
    raises \<^verbatim>\<open>OverflowError\<close> for an integer beyond the range of a double (about 1.8e308),
    far outside the integers that SQLite stores;
  \<^item> the value of \<^verbatim>\<open>request.get_json()\<close> is a record of optional fields (\<open>None\<close>: the key is
    absent) and is itself optional (\<open>None\<close>: a value that Python treats as false, such as
    \<^verbatim>\<open>null\<close> or an empty object); the values of the keys have the types the handlers
    compute with, and a request whose body is not JSON at all, for which \<^verbatim>\<open>get_json\<close> raises,
    is no input of these functions;
  \<^item> a handler returns its HTTP response together with the store after the request; the
    session of the ORM is explicit (\<open>rollback\<close> and \<open>commit\<close> below);
  \<^item> SQLite stores integers of 64 bits: binding a Python integer outside that range, in a
    query or in the insert or update of a flush, raises \<^verbatim>\<open>OverflowError\<close>, which every
    handler's \<^verbatim>\<open>except Exception\<close> answers with a rollback and the status 500;
  \<^item> a function named as in the source is the function as written there; where the source
    decorates it with \<^verbatim>\<open>@token_required\<close>, the decorated function, which is what the route
    calls, is the definition named after the route (\<open>post_orders\<close> for POST /orders);
  \<^item> of the time stamp columns, \<open>updated_at\<close> of orders and inventory rows and
    \<open>delivery_date\<close> are kept, the ones the handlers below assign; \<open>created_at\<close>,
    \<open>order_date\<close> and \<open>last_login\<close>, which these handlers never read or assign, are left out.
\<close>

subsection \<open>Floats\<close>

record 'f float_ops =
  f_of_int :: "int \<Rightarrow> 'f"
  f_add :: "'f \<Rightarrow> 'f \<Rightarrow> 'f"
  f_mul :: "'f \<Rightarrow> 'f \<Rightarrow> 'f"

text \<open>Exact arithmetic on the integers, used to run the handlers on concrete inputs whose
  prices are whole numbers (where IEEE doubles are exact as well).\<close>

definition exact_ops :: "int float_ops" where
  "exact_ops = \<lparr>f_of_int = (\<lambda>i. i), f_add = (\<lambda>a b. a + b), f_mul = (\<lambda>a b. a * b)\<rparr>"

subsection \<open>Rows\<close>

type_synonym date = "nat \<times> nat \<times> nat"
type_synonym time = nat

record user =
  u_id :: int
  u_username :: string
  u_email :: string
  u_password_hash :: string
  u_full_name :: string
  u_phone :: string
  u_role :: string
  u_is_active :: bool

record 'f product =
  p_id :: int
  p_item_name :: string
  p_trade_price :: 'f
  p_return_price_market :: 'f
  p_return_price_office :: 'f
  p_is_active :: bool

record 'f inventory =
  i_id :: int
  i_product_id :: int
  i_date :: date
  i_opening_pieces :: int
  i_lifting_pieces :: int
  i_lifting_price :: 'f
  i_return_market_pieces :: int
  i_return_market_price :: 'f
  i_return_office_pieces :: int
  i_return_office_price :: 'f
  i_total_stock :: int
  i_ims_pieces :: int
  i_ims_value :: 'f
  i_present_stock :: int
  i_closing_value :: 'f
  i_updated_at :: time

record 'f order =
  o_id :: int
  o_sales_person_id :: int
  o_customer_name :: string
  o_customer_phone :: string
  o_customer_address :: string
  o_delivery_area :: string
  o_status :: string
  o_total_value :: 'f
  o_delivery_date :: "time option"
  o_notes :: string
  o_updated_at :: time

text \<open>The \<open>total_price\<close> attribute of an \<^verbatim>\<open>OrderItem\<close> object is \<^verbatim>\<open>None\<close> until
  \<^verbatim>\<open>calculate_total_price\<close> has run.\<close>

record 'f order_item =
  oi_id :: int
  oi_order_id :: int
  oi_product_id :: int
  oi_quantity :: int
  oi_unit_price :: 'f
  oi_total_price :: "'f option"

subsection \<open>The store and the responses\<close>

record 'f db =
  users :: "user list"
  products :: "'f product list"
  inventory_tbl :: "'f inventory list"
  orders :: "'f order list"
  order_items :: "'f order_item list"

text \<open>An integer primary key of SQLite: one more than the greatest key of the table, 1 for
  the empty table (keys are positive).\<close>

definition next_id :: "int list \<Rightarrow> int" where
  "next_id ids = foldr max ids 0 + 1"

text \<open>\<^verbatim>\<open>Model.query.get(id)\<close>.\<close>

definition query_get :: "('a \<Rightarrow> int) \<Rightarrow> 'a list \<Rightarrow> int \<Rightarrow> 'a option" where
  "query_get key tbl k = find (\<lambda>r. key r = k) tbl"

text \<open>A modified object is written back to its row at flush.\<close>

definition update_row :: "('a \<Rightarrow> int) \<Rightarrow> 'a \<Rightarrow> 'a list \<Rightarrow> 'a list" where
  "update_row key row tbl = map (\<lambda>r. if key r = key row then row else r) tbl"

text \<open>The session: \<open>rollback\<close> keeps the store as it was when the request began,
  \<open>commit\<close> replaces it by the working copy.\<close>

definition rollback :: "'f db \<Rightarrow> 'f db \<Rightarrow> 'f db" where
  "rollback committed working = committed"

definition commit :: "'f db \<Rightarrow> 'f db \<Rightarrow> 'f db" where
  "commit committed working = working"

text \<open>One constructor for each message of the handlers; the status code is given at each
  return, as in the source.\<close>

datatype error =
    No_data_provided
  | Missing_required_field string
  | Order_must_contain_item
  | Item_must_have_keys
  | Product_not_found_or_inactive int
  | Insufficient_stock string int int
  | Order_not_found
  | View_own_orders_only
  | Update_own_orders_only
  | Status_required
  | Invalid_status
  | Only_admin_create_inventory
  | Only_admin_update_inventory
  | Product_not_found
  | Invalid_date_format
  | Inventory_exists date
  | Inventory_not_found
  | Username_exists
  | Email_exists
  | Invalid_or_expired_token
  | User_not_found_or_inactive
  | Internal_error

datatype 'a response = Failure nat error | Success nat 'a

text \<open>The integers that SQLite takes: from \<open>-2\<^sup>6\<^sup>3\<close> to \<open>2\<^sup>6\<^sup>3 - 1\<close>.\<close>

definition sqlite_integer :: "int \<Rightarrow> bool" where
  "sqlite_integer n = (- 9223372036854775808 \<le> n \<and> n \<le> 9223372036854775807)"

subsection \<open>Users (models/user.py)\<close>

definition is_admin :: "user \<Rightarrow> bool" where
  "is_admin u = (u_role u = ''admin'')"

definition is_sales :: "user \<Rightarrow> bool" where
  "is_sales u = (u_role u = ''sales'')"

text \<open>
  The decorator \<^verbatim>\<open>token_required\<close> (routes/auth.py). The argument \<open>identity\<close> is what
  \<^verbatim>\<open>verify_jwt_in_request\<close> and \<^verbatim>\<open>get_jwt_identity\<close> yield: \<open>None\<close> when the request has no
  valid token (the first of them raises), otherwise the user id the token was issued for.
  An exception inside the decorator, as that of the lookup of an id outside 64 bits, is
  answered 401 as well. The handler \<open>f\<close> runs only for an account that exists and is active.
\<close>

definition token_required ::
  "(user \<Rightarrow> 'r response \<times> 'f db) \<Rightarrow> int option \<Rightarrow> 'f db \<Rightarrow> 'r response \<times> 'f db" where
  "token_required f identity db =
     (case identity of
        None \<Rightarrow> (Failure 401 Invalid_or_expired_token, db)
      | Some current_user_id \<Rightarrow>
          if \<not> sqlite_integer current_user_id then (Failure 401 Invalid_or_expired_token, db)
          else
            (case query_get u_id (users db) current_user_id of
               None \<Rightarrow> (Failure 401 User_not_found_or_inactive, db)
             | Some current_user \<Rightarrow>
                 if \<not> u_is_active current_user
                 then (Failure 401 User_not_found_or_inactive, db)
                 else f current_user))"

subsection \<open>Stock accounting (models/inventory.py)\<close>

text \<open>\<^verbatim>\<open>Inventory.calculate_totals\<close>: the three assignments, in the order of the source; the
  literal \<^verbatim>\<open>140.0\<close> is the float of the integer 140.\<close>

definition calculate_totals :: "'f float_ops \<Rightarrow> 'f inventory \<Rightarrow> 'f inventory" where
  "calculate_totals fl r =
     (let r1 = r\<lparr>i_total_stock :=
                  i_opening_pieces r + i_return_market_pieces r + i_return_office_pieces r
                    - i_lifting_pieces r\<rparr>;
          r2 = r1\<lparr>i_present_stock := i_total_stock r1\<rparr>
      in r2\<lparr>i_closing_value := f_mul fl (f_of_int fl (i_present_stock r2)) (f_of_int fl 140)\<rparr>)"

text \<open>\<^verbatim>\<open>order_by(Inventory.date.desc()).first()\<close>: the row of greatest date; among rows
  of equal date the one met first in the table.\<close>

fun first_by_date_desc :: "'f inventory list \<Rightarrow> 'f inventory option" where
  "first_by_date_desc [] = None"
| "first_by_date_desc (r # rs) =
     (case first_by_date_desc rs of
        None \<Rightarrow> Some r
      | Some m \<Rightarrow> if i_date r < i_date m then Some m else Some r)"

text \<open>\<^verbatim>\<open>Inventory.get_current_stock\<close>, on the inventory table.\<close>

definition get_current_stock :: "'f inventory list \<Rightarrow> int \<Rightarrow> int" where
  "get_current_stock tbl product_id =
     (case first_by_date_desc (filter (\<lambda>r. i_product_id r = product_id) tbl) of
        Some latest_inventory \<Rightarrow> i_present_stock latest_inventory
      | None \<Rightarrow> 0)"

subsection \<open>Orders (models/order.py, routes/order.py)\<close>

text \<open>\<^verbatim>\<open>OrderItem.calculate_total_price\<close>: the integer quantity times the float unit price.\<close>

definition calculate_total_price :: "'f float_ops \<Rightarrow> 'f order_item \<Rightarrow> 'f order_item" where
  "calculate_total_price fl item =
     item\<lparr>oi_total_price := Some (f_mul fl (f_of_int fl (oi_quantity item)) (oi_unit_price item))\<rparr>"

record item_data =
  it_product_id :: "int option"
  it_quantity :: "int option"

record order_data =
  d_customer_name :: "string option"
  d_customer_phone :: "string option"
  d_customer_address :: "string option"
  d_delivery_area :: "string option"
  d_notes :: "string option"
  d_items :: "item_data list option"

text \<open>\<^verbatim>\<open>data.get(key, '')\<close>.\<close>

definition get_or_empty :: "string option \<Rightarrow> string" where
  "get_or_empty v = (case v of None \<Rightarrow> [] | Some x \<Rightarrow> x)"

text \<open>
  The loop of \<^verbatim>\<open>create_order\<close> over \<^verbatim>\<open>data['items']\<close>. Its state is the working copy
  \<open>w\<close> of the store (the session with its pending inserts), the running \<open>total_value\<close> and
  the list \<open>items\<close> of the order items made so far, which are the inserts that the session
  has pending. A \<^verbatim>\<open>return\<close> inside the loop is \<open>Inl\<close> with the status code and the message;
  the caller rolls back. Adding \<^verbatim>\<open>None\<close> to the total would raise \<^verbatim>\<open>TypeError\<close>, which the
  handler's \<^verbatim>\<open>except\<close> turns into the status 500.

  The first query of an iteration flushes the session: the pending order items are
  inserted, and a quantity outside 64 bits raises \<^verbatim>\<open>OverflowError\<close>, as does the product id
  of the line when it is bound in the query for the product. Both come before the product
  is looked at, and after the test for the two keys, which asks the store nothing. Of the
  integer columns of an order item only the quantity comes from the request; the others are
  keys taken from the store.
\<close>

definition storable_item :: "'f order_item \<Rightarrow> bool" where
  "storable_item item = sqlite_integer (oi_quantity item)"

fun process_items ::
  "'f float_ops \<Rightarrow> 'f db \<Rightarrow> int \<Rightarrow> item_data list \<Rightarrow> 'f \<Rightarrow> 'f order_item list
     \<Rightarrow> (nat \<times> error) + ('f \<times> 'f order_item list \<times> 'f db)" where
  "process_items fl w order_id [] total_value items = Inr (total_value, items, w)"
| "process_items fl w order_id (item_data # rest) total_value items =
     (case (it_product_id item_data, it_quantity item_data) of
        (Some pid, Some quantity) \<Rightarrow>
          if \<not> list_all storable_item items \<or> \<not> sqlite_integer pid
          then Inl (500, Internal_error)
          else
          (case query_get p_id (products w) pid of
             None \<Rightarrow> Inl (400, Product_not_found_or_inactive pid)
           | Some product \<Rightarrow>
               if \<not> p_is_active product then Inl (400, Product_not_found_or_inactive pid)
               else
                 let current_stock = get_current_stock (inventory_tbl w) (p_id product) in
                 if current_stock < quantity
                 then Inl (400, Insufficient_stock (p_item_name product) current_stock quantity)
                 else
                   let order_item = calculate_total_price fl
                         \<lparr>oi_id = next_id (map oi_id (order_items w)),
                          oi_order_id = order_id,
                          oi_product_id = p_id product,
                          oi_quantity = quantity,
                          oi_unit_price = p_trade_price product,
                          oi_total_price = None\<rparr>
                   in (case oi_total_price order_item of
                         None \<Rightarrow> Inl (500, Internal_error)
                       | Some total_price \<Rightarrow>
                           process_items fl (w\<lparr>order_items := order_items w @ [order_item]\<rparr>)
                             order_id rest (f_add fl total_value total_price)
                             (items @ [order_item])))
      | _ \<Rightarrow> Inl (400, Item_must_have_keys))"

text \<open>
  \<^verbatim>\<open>create_order\<close>, the function under the decorator. The running total starts as the
  integer 0, which the first addition converts to a float. The commit flushes the order
  items that are still pending, and fails as the flush inside the loop does. The response
  carries the order and its items.
\<close>

definition create_order ::
  "'f float_ops \<Rightarrow> time \<Rightarrow> user \<Rightarrow> order_data option \<Rightarrow> 'f db
     \<Rightarrow> ('f order \<times> 'f order_item list) response \<times> 'f db" where
  "create_order fl now current_user data db =
     (case data of
        None \<Rightarrow> (Failure 400 No_data_provided, db)
      | Some d \<Rightarrow>
     (case d_customer_name d of
        None \<Rightarrow> (Failure 400 (Missing_required_field ''customer_name''), db)
      | Some customer_name \<Rightarrow>
     (case d_delivery_area d of
        None \<Rightarrow> (Failure 400 (Missing_required_field ''delivery_area''), db)
      | Some delivery_area \<Rightarrow>
     (case d_items d of
        None \<Rightarrow> (Failure 400 (Missing_required_field ''items''), db)
      | Some items \<Rightarrow>
          if items = [] then (Failure 400 Order_must_contain_item, db)
          else
            let order =
                  \<lparr>o_id = next_id (map o_id (orders db)),
                   o_sales_person_id = u_id current_user,
                   o_customer_name = customer_name,
                   o_customer_phone = get_or_empty (d_customer_phone d),
                   o_customer_address = get_or_empty (d_customer_address d),
                   o_delivery_area = delivery_area,
                   o_status = ''pending'',
                   o_total_value = f_of_int fl 0,
                   o_delivery_date = None,
                   o_notes = get_or_empty (d_notes d),
                   o_updated_at = now\<rparr>;
                w = db\<lparr>orders := orders db @ [order]\<rparr>
            in (case process_items fl w (o_id order) items (f_of_int fl 0) [] of
                  Inl (code, err) \<Rightarrow> (Failure code err, rollback db w)
                | Inr (total_value, new_items, w') \<Rightarrow>
                    let order' = order\<lparr>o_total_value := total_value\<rparr>;
                        w'' = w'\<lparr>orders := update_row o_id order' (orders w')\<rparr>
                    in if \<not> list_all storable_item new_items
                       then (Failure 500 Internal_error, rollback db w'')
                       else (Success 201 (order', new_items), commit db w''))))))"

text \<open>POST /orders: \<^verbatim>\<open>create_order\<close> as decorated.\<close>

definition post_orders ::
  "'f float_ops \<Rightarrow> time \<Rightarrow> int option \<Rightarrow> order_data option \<Rightarrow> 'f db
     \<Rightarrow> ('f order \<times> 'f order_item list) response \<times> 'f db" where
  "post_orders fl now identity data db =
     token_required (\<lambda>current_user. create_order fl now current_user data db) identity db"

text \<open>
  \<^verbatim>\<open>get_order\<close>, the function under the decorator, reads only. The \<open>order_id\<close> of the URL
  is any natural number; outside 64 bits its lookup raises. The body of the response is
  the order, its items each with its product when that exists, and the id, user name and
  full name of the sales person when that user exists.
\<close>

type_synonym 'f order_dict =
  "'f order \<times> ('f order_item \<times> 'f product option) list \<times> (int \<times> string \<times> string) option"

definition get_order :: "user \<Rightarrow> 'f db \<Rightarrow> int \<Rightarrow> 'f order_dict response" where
  "get_order current_user db order_id =
     (if \<not> sqlite_integer order_id then Failure 500 Internal_error
      else
      case query_get o_id (orders db) order_id of
        None \<Rightarrow> Failure 404 Order_not_found
      | Some order \<Rightarrow>
          if is_sales current_user \<and> o_sales_person_id order \<noteq> u_id current_user
          then Failure 403 View_own_orders_only
          else
            let rows = filter (\<lambda>item. oi_order_id item = o_id order) (order_items db);
                items = map (\<lambda>item. (item, query_get p_id (products db) (oi_product_id item)))
                          rows;
                sales_person =
                  map_option (\<lambda>sp. (u_id sp, u_username sp, u_full_name sp))
                    (query_get u_id (users db) (o_sales_person_id order))
            in Success 200 (order, items, sales_person))"

text \<open>GET /orders/:id: \<^verbatim>\<open>get_order\<close> as decorated.\<close>

definition get_orders_by_id ::
  "int option \<Rightarrow> int \<Rightarrow> 'f db \<Rightarrow> 'f order_dict response \<times> 'f db" where
  "get_orders_by_id identity order_id db =
     token_required (\<lambda>current_user. (get_order current_user db order_id, db)) identity db"

text \<open>
  \<^verbatim>\<open>update_order_status\<close>, the function under the decorator. The body has the one key
  \<^verbatim>\<open>status\<close>. The handler reads the clock twice: \<open>now_updated\<close> for \<^verbatim>\<open>updated_at\<close> and
  \<open>now_delivered\<close> for \<^verbatim>\<open>delivery_date\<close>. The response carries the old status, the new
  status and the order.
\<close>

definition valid_statuses :: "string list" where
  "valid_statuses = [''pending'', ''processing'', ''delivered'', ''cancelled'', ''due'']"

definition update_order_status ::
  "time \<Rightarrow> time \<Rightarrow> user \<Rightarrow> int \<Rightarrow> string option option \<Rightarrow> 'f db
     \<Rightarrow> (string \<times> string \<times> 'f order) response \<times> 'f db" where
  "update_order_status now_updated now_delivered current_user order_id data db =
     (if \<not> sqlite_integer order_id then (Failure 500 Internal_error, rollback db db)
      else
      case query_get o_id (orders db) order_id of
        None \<Rightarrow> (Failure 404 Order_not_found, db)
      | Some order \<Rightarrow>
          if is_sales current_user \<and> o_sales_person_id order \<noteq> u_id current_user
          then (Failure 403 Update_own_orders_only, db)
          else
            (case data of
               None \<Rightarrow> (Failure 400 Status_required, db)
             | Some None \<Rightarrow> (Failure 400 Status_required, db)
             | Some (Some new_status) \<Rightarrow>
                 if new_status \<notin> set valid_statuses then (Failure 400 Invalid_status, db)
                 else
                   let old_status = o_status order;
                       order1 = order\<lparr>o_status := new_status, o_updated_at := now_updated\<rparr>;
                       order2 = (if new_status = ''delivered'' \<and> old_status \<noteq> ''delivered''
                                 then order1\<lparr>o_delivery_date := Some now_delivered\<rparr>
                                 else order1)
                   in (Success 200 (old_status, new_status, order2),
                       commit db (db\<lparr>orders := update_row o_id order2 (orders db)\<rparr>))))"

text \<open>PUT /orders/:id/status: \<^verbatim>\<open>update_order_status\<close> as decorated.\<close>

definition put_orders_status ::
  "time \<Rightarrow> time \<Rightarrow> int option \<Rightarrow> int \<Rightarrow> string option option \<Rightarrow> 'f db
     \<Rightarrow> (string \<times> string \<times> 'f order) response \<times> 'f db" where
  "put_orders_status now_updated now_delivered identity order_id data db =
     token_required
       (\<lambda>current_user.
          update_order_status now_updated now_delivered current_user order_id data db)
       identity db"

subsection \<open>Inventory records (routes/inventory.py)\<close>













subsection \<open>Registration (routes/auth.py)\<close>

text \<open>\<^verbatim>\<open>str.strip()\<close>. A character is a code point below 256; those that Python counts as
  white space are 9 to 13, 28 to 32, 133 (next line) and 160 (no-break space).\<close>

definition is_space :: "char \<Rightarrow> bool" where
  "is_space c =
     (let n = (of_char c :: nat)
      in (9 \<le> n \<and> n \<le> 13) \<or> (28 \<le> n \<and> n \<le> 32) \<or> n = 133 \<or> n = 160)"

definition strip :: "string \<Rightarrow> string" where
  "strip s = rev (dropWhile is_space (rev (dropWhile is_space s)))"

text \<open>The body of POST /register. The handler reads the five keys below it names; a key
  \<^verbatim>\<open>role\<close> in the body is a field of the record that the handler never reads.\<close>

record register_data =
  r_username :: "string option"
  r_email :: "string option"
  r_password :: "string option"
  r_full_name :: "string option"
  r_phone :: "string option"
  r_role :: "string option"

text \<open>\<^verbatim>\<open>field not in data or not data[field].strip()\<close>.\<close>

definition missing :: "string option \<Rightarrow> bool" where
  "missing v = (case v of None \<Rightarrow> True | Some x \<Rightarrow> strip x = [])"

text \<open>
  \<^verbatim>\<open>register\<close> (POST /register), which has no decorator. The library function
  \<^verbatim>\<open>generate_password_hash\<close> is the parameter of that name. A new account is active, the
  column's default.
\<close>

definition register ::
  "(string \<Rightarrow> string) \<Rightarrow> register_data option \<Rightarrow> 'f db \<Rightarrow> user response \<times> 'f db" where
  "register generate_password_hash data db =
     (case data of
        None \<Rightarrow> (Failure 400 No_data_provided, db)
      | Some d \<Rightarrow>
          if missing (r_username d) then (Failure 400 (Missing_required_field ''username''), db)
          else if missing (r_email d) then (Failure 400 (Missing_required_field ''email''), db)
          else if missing (r_password d) then (Failure 400 (Missing_required_field ''password''), db)
          else if missing (r_full_name d) then (Failure 400 (Missing_required_field ''full_name''), db)
          else if find (\<lambda>u. u_username u = strip (get_or_empty (r_username d))) (users db) \<noteq> None
          then (Failure 400 Username_exists, db)
          else if find (\<lambda>u. u_email u = strip (get_or_empty (r_email d))) (users db) \<noteq> None
          then (Failure 400 Email_exists, db)
          else
            let user =
                  \<lparr>u_id = next_id (map u_id (users db)),
                   u_username = strip (get_or_empty (r_username d)),
                   u_email = strip (get_or_empty (r_email d)),
                   u_password_hash = generate_password_hash (get_or_empty (r_password d)),
                   u_full_name = strip (get_or_empty (r_full_name d)),
                   u_phone = strip (get_or_empty (r_phone d)),
                   u_role = ''sales'',
                   u_is_active = True\<rparr>
            in (Success 201 user, commit db (db\<lparr>users := users db @ [user]\<rparr>)))"

subsection \<open>Notions used to state the properties\<close>

text \<open>The total of an order item as \<^verbatim>\<open>calculate_total_price\<close> computes it, and the sum of a
  list of floats accumulated from the left, as the loop of \<^verbatim>\<open>create_order\<close> does.\<close>

definition line_total :: "'f float_ops \<Rightarrow> 'f order_item \<Rightarrow> 'f" where
  "line_total fl item = f_mul fl (f_of_int fl (oi_quantity item)) (oi_unit_price item)"

definition sum_from :: "'f float_ops \<Rightarrow> 'f \<Rightarrow> 'f list \<Rightarrow> 'f" where
  "sum_from fl start xs = foldl (f_add fl) start xs"

text \<open>A line of a request that passes every check of the loop: both keys present, the
  product found and active, the quantity not above the current stock.\<close>

definition line_ok :: "'f product list \<Rightarrow> 'f inventory list \<Rightarrow> item_data \<Rightarrow> bool" where
  "line_ok ps tbl line =
     (case (it_product_id line, it_quantity line) of
        (Some pid, Some q) \<Rightarrow>
          (case query_get p_id ps pid of
             None \<Rightarrow> False
           | Some p \<Rightarrow> p_is_active p \<and> q \<le> get_current_stock tbl (p_id p))
      | _ \<Rightarrow> False)"

text \<open>A line whose product id and quantity, where present, are integers of 64 bits.\<close>

definition line_in_range :: "item_data \<Rightarrow> bool" where
  "line_in_range line =
     ((case it_product_id line of None \<Rightarrow> True | Some pid \<Rightarrow> sqlite_integer pid)
      \<and> (case it_quantity line of None \<Rightarrow> True | Some q \<Rightarrow> sqlite_integer q))"

text \<open>The order item that the loop makes of a line.\<close>

definition item_of_line ::
  "'f float_ops \<Rightarrow> 'f product list \<Rightarrow> int \<Rightarrow> item_data \<Rightarrow> 'f order_item \<Rightarrow> bool" where
  "item_of_line fl ps oid line item =
     (case (it_product_id line, it_quantity line) of
        (Some pid, Some q) \<Rightarrow>
          (case query_get p_id ps pid of
             None \<Rightarrow> False
           | Some p \<Rightarrow>
               oi_order_id item = oid \<and> oi_product_id item = p_id p \<and> oi_quantity item = q
               \<and> oi_unit_price item = p_trade_price p
               \<and> oi_total_price item = Some (f_mul fl (f_of_int fl q) (p_trade_price p)))
      | _ \<Rightarrow> False)"


subsection \<open>Example data\<close>

text \<open>Rows and users for running the handlers on concrete inputs, with whole-number
  prices in exact arithmetic.\<close>

definition example_movement :: "int \<Rightarrow> int \<Rightarrow> int \<Rightarrow> int \<Rightarrow> int inventory" where
  "example_movement opening lifting return_market return_office =
     \<lparr>i_id = 1, i_product_id = 1, i_date = (2024, 7, 20),
      i_opening_pieces = opening, i_lifting_pieces = lifting, i_lifting_price = 0,
      i_return_market_pieces = return_market, i_return_market_price = 0,
      i_return_office_pieces = return_office, i_return_office_price = 0,
      i_total_stock = 0, i_ims_pieces = 0, i_ims_value = 0,
      i_present_stock = 0, i_closing_value = 0, i_updated_at = 0\<rparr>"

definition example_row :: "int \<Rightarrow> int \<Rightarrow> date \<Rightarrow> int \<Rightarrow> int inventory" where
  "example_row rid pid d opening = calculate_totals exact_ops
     \<lparr>i_id = rid, i_product_id = pid, i_date = d,
      i_opening_pieces = opening, i_lifting_pieces = 0, i_lifting_price = 0,
      i_return_market_pieces = 0, i_return_market_price = 0,
      i_return_office_pieces = 0, i_return_office_price = 0,
      i_total_stock = 0, i_ims_pieces = 0, i_ims_value = 0,
      i_present_stock = 0, i_closing_value = 0, i_updated_at = 0\<rparr>"

definition example_product :: "int \<Rightarrow> string \<Rightarrow> int \<Rightarrow> bool \<Rightarrow> int product" where
  "example_product pid name price active =
     \<lparr>p_id = pid, p_item_name = name, p_trade_price = price,
      p_return_price_market = 0, p_return_price_office = 0, p_is_active = active\<rparr>"

definition example_user :: "int \<Rightarrow> string \<Rightarrow> string \<Rightarrow> user" where
  "example_user uid name role =
     \<lparr>u_id = uid, u_username = name, u_email = name @ ''@pentagon.com'',
      u_password_hash = ''x'', u_full_name = name, u_phone = [], u_role = role,
      u_is_active = True\<rparr>"

definition example_order :: "int \<Rightarrow> int \<Rightarrow> string \<Rightarrow> int order" where
  "example_order oid owner status =
     \<lparr>o_id = oid, o_sales_person_id = owner, o_customer_name = ''Ahmed Rahman'',
      o_customer_phone = [], o_customer_address = [], o_delivery_area = ''Dhanmondi'',
      o_status = status, o_total_value = 0, o_delivery_date = None, o_notes = [],
      o_updated_at = 0\<rparr>"

text \<open>Product 1 (trade price 140) has records on 2024-07-18 (present stock 10) and
  2024-07-20 (present stock 15); product 2 (trade price 100) has one record (present
  stock 8); product 3 is inactive. User 1 is an admin, users 2 and 3 are sales persons;
  order 1 belongs to user 2.\<close>

definition example_db :: "int db" where
  "example_db =
     \<lparr>users = [example_user 1 ''admin'' ''admin'', example_user 2 ''sales1'' ''sales'',
               example_user 3 ''sales2'' ''sales''],
      products = [example_product 1 ''A'' 140 True, example_product 2 ''B'' 100 True,
                  example_product 3 ''C'' 50 False],
      inventory_tbl = [example_row 1 1 (2024, 7, 18) 10, example_row 2 2 (2024, 7, 20) 8,
                       example_row 3 1 (2024, 7, 20) 15],
      orders = [example_order 1 2 ''pending''],
      order_items = []\<rparr>"

definition example_line :: "int \<Rightarrow> int \<Rightarrow> item_data" where
  "example_line pid q = \<lparr>it_product_id = Some pid, it_quantity = Some q\<rparr>"

definition example_order_data :: "item_data list \<Rightarrow> order_data" where
  "example_order_data lines =
     \<lparr>d_customer_name = Some ''John Doe'', d_customer_phone = None,
      d_customer_address = None, d_delivery_area = Some ''Dhanmondi'', d_notes = None,
      d_items = Some lines\<rparr>"








definition example_register_data :: "string \<Rightarrow> string option \<Rightarrow> register_data" where
  "example_register_data name role =
     \<lparr>r_username = Some name, r_email = Some (name @ ''@pentagon.com''),
      r_password = Some ''password123'', r_full_name = Some ''New Sales Person'',
      r_phone = None, r_role = role\<rparr>"

text \<open>The example store after user 2 has been deactivated.\<close>

definition example_db_user_2_inactive :: "int db" where
  "example_db_user_2_inactive =
     example_db\<lparr>users :=
       [example_user 1 ''admin'' ''admin'',
        (example_user 2 ''sales1'' ''sales'')\<lparr>u_is_active := False\<rparr>,
        example_user 3 ''sales2'' ''sales'']\<rparr>"

section \<open>Properties\<close>

subsection \<open>Stock accounting\<close>




text \<open>
  C1. \<^verbatim>\<open>calculate_totals\<close> sets \<open>total_stock\<close> to opening + return market + return office
  - lifting, \<open>present_stock\<close> to that same value, and \<open>closing_value\<close> to the float product of
  \<open>present_stock\<close> and the reference price 140.0. The integers are unbounded and signed and
  nothing is clamped, so a negative total is stored as it is. No other field changes.
\<close>

theorem calculate_totals_spec:
  "i_total_stock (calculate_totals fl r) =
     i_opening_pieces r + i_return_market_pieces r + i_return_office_pieces r - i_lifting_pieces r
   \<and> i_present_stock (calculate_totals fl r) = i_total_stock (calculate_totals fl r)
   \<and> i_closing_value (calculate_totals fl r) =
       f_mul fl (f_of_int fl (i_present_stock (calculate_totals fl r))) (f_of_int fl 140)
   \<and> calculate_totals fl r =
       r\<lparr>i_total_stock := i_total_stock (calculate_totals fl r),
         i_present_stock := i_present_stock (calculate_totals fl r),
         i_closing_value := i_closing_value (calculate_totals fl r)\<rparr>"
  by (simp add: calculate_totals_def Let_def)

text \<open>The example of the specification (opening 20, lifting 5, returns 2 and 1) gives the
  stock 18; lifting 5 from an opening of 0 gives the stock -5 and the closing value -700.\<close>

theorem calculate_totals_spec_witness:
  "i_total_stock (calculate_totals exact_ops (example_movement 20 5 2 1)) = 18
   \<and> i_present_stock (calculate_totals exact_ops (example_movement 20 5 2 1)) = 18
   \<and> i_closing_value (calculate_totals exact_ops (example_movement 20 5 2 1)) = 2520
   \<and> i_total_stock (calculate_totals exact_ops (example_movement 0 5 0 0)) = - 5
   \<and> i_present_stock (calculate_totals exact_ops (example_movement 0 5 0 0)) = - 5
   \<and> i_closing_value (calculate_totals exact_ops (example_movement 0 5 0 0)) = - 700"
proof -
  have a: "i_total_stock (calculate_totals exact_ops (example_movement 20 5 2 1)) = 18"
    and b: "i_total_stock (calculate_totals exact_ops (example_movement 0 5 0 0)) = - 5"
    using calculate_totals_spec [of exact_ops "example_movement 20 5 2 1", THEN conjunct1]
      calculate_totals_spec [of exact_ops "example_movement 0 5 0 0", THEN conjunct1]
    by (simp_all add: example_movement_def)
  have c: "i_present_stock (calculate_totals exact_ops (example_movement 20 5 2 1)) = 18"
    and d: "i_present_stock (calculate_totals exact_ops (example_movement 0 5 0 0)) = - 5"
    using calculate_totals_spec [of exact_ops "example_movement 20 5 2 1",
        THEN conjunct2, THEN conjunct1]
      calculate_totals_spec [of exact_ops "example_movement 0 5 0 0",
        THEN conjunct2, THEN conjunct1] a b
    by simp_all
  have "i_closing_value (calculate_totals exact_ops (example_movement 20 5 2 1)) = 2520"
    and "i_closing_value (calculate_totals exact_ops (example_movement 0 5 0 0)) = - 700"
    using calculate_totals_spec [of exact_ops "example_movement 20 5 2 1",
        THEN conjunct2, THEN conjunct2, THEN conjunct1]
      calculate_totals_spec [of exact_ops "example_movement 0 5 0 0",
        THEN conjunct2, THEN conjunct2, THEN conjunct1] c d
    by (simp_all add: exact_ops_def)
  with a b c d show ?thesis by simp
qed



subsection \<open>The loop over the lines of an order\<close>

lemma process_items_Cons_Inr:
  assumes "process_items fl w oid (line # lines) t acc = Inr r"
  obtains pid q p where
    "it_product_id line = Some pid" "it_quantity line = Some q"
    "list_all storable_item acc" "sqlite_integer pid"
    "query_get p_id (products w) pid = Some p" "p_is_active p"
    "\<not> get_current_stock (inventory_tbl w) (p_id p) < q"
  using assms by (auto simp: Let_def split: option.splits if_splits)

lemma process_items_step:
  assumes "it_product_id line = Some pid" "it_quantity line = Some q"
    "list_all storable_item acc" "sqlite_integer pid"
    "query_get p_id (products w) pid = Some p" "p_is_active p"
    "\<not> get_current_stock (inventory_tbl w) (p_id p) < q"
  shows "process_items fl w oid (line # lines) t acc
    = process_items fl
        (w\<lparr>order_items := order_items w @
            [\<lparr>oi_id = next_id (map oi_id (order_items w)), oi_order_id = oid,
              oi_product_id = p_id p, oi_quantity = q, oi_unit_price = p_trade_price p,
              oi_total_price = Some (f_mul fl (f_of_int fl q) (p_trade_price p))\<rparr>]\<rparr>)
        oid lines (f_add fl t (f_mul fl (f_of_int fl q) (p_trade_price p)))
        (acc @
            [\<lparr>oi_id = next_id (map oi_id (order_items w)), oi_order_id = oid,
              oi_product_id = p_id p, oi_quantity = q, oi_unit_price = p_trade_price p,
              oi_total_price = Some (f_mul fl (f_of_int fl q) (p_trade_price p))\<rparr>])"
  using assms by (simp add: Let_def calculate_total_price_def)

lemma process_items_code:
  "process_items fl w oid lines t acc = Inl (code, err) \<Longrightarrow> code = 400 \<or> code = 500"
  by (induction lines arbitrary: w t acc)
     (auto simp: calculate_total_price_def Let_def split: option.splits if_splits)

lemma process_items_code_in_range:
  "process_items fl w oid lines t acc = Inl (code, err) \<Longrightarrow>
   list_all storable_item acc \<Longrightarrow> \<forall>line \<in> set lines. line_in_range line \<Longrightarrow> code = 400"
proof (induction lines arbitrary: w t acc)
  case Nil
  then show ?case by simp
next
  case (Cons line lines)
  show ?case
  proof (cases "\<exists>r. process_items fl w oid [line] t acc = Inr r")
    case False
    with Cons.prems show ?thesis
      by (auto simp: calculate_total_price_def line_in_range_def Let_def
            split: option.splits if_splits)
  next
    case True
    then obtain r where "process_items fl w oid [line] t acc = Inr r" by blast
    then obtain pid q p where
      l: "it_product_id line = Some pid" "it_quantity line = Some q"
        "list_all storable_item acc" "sqlite_integer pid"
        "query_get p_id (products w) pid = Some p" "p_is_active p"
        "\<not> get_current_stock (inventory_tbl w) (p_id p) < q"
      by (rule process_items_Cons_Inr)
    from Cons.prems(3) l(2) have q: "sqlite_integer q"
      by (simp add: line_in_range_def)
    let ?item = "\<lparr>oi_id = next_id (map oi_id (order_items w)), oi_order_id = oid,
              oi_product_id = p_id p, oi_quantity = q, oi_unit_price = p_trade_price p,
              oi_total_price = Some (f_mul fl (f_of_int fl q) (p_trade_price p))\<rparr>"
    from Cons.prems(1) process_items_step [OF l, of fl oid lines t]
    have "process_items fl (w\<lparr>order_items := order_items w @ [?item]\<rparr>) oid lines
        (f_add fl t (f_mul fl (f_of_int fl q) (p_trade_price p))) (acc @ [?item])
        = Inl (code, err)"
      by simp
    moreover have "list_all storable_item (acc @ [?item])"
      using l(3) q by (simp add: storable_item_def)
    ultimately show ?thesis using Cons.IH Cons.prems(3) by simp
  qed
qed

lemma process_items_line_ok:
  "process_items fl w oid lines t acc = Inr r \<Longrightarrow>
   \<forall>line \<in> set lines. line_ok (products w) (inventory_tbl w) line"
proof (induction lines arbitrary: w t acc)
  case Nil
  then show ?case by simp
next
  case (Cons line lines)
  from Cons.prems obtain pid q p where
    l: "it_product_id line = Some pid" "it_quantity line = Some q"
      "list_all storable_item acc" "sqlite_integer pid"
      "query_get p_id (products w) pid = Some p" "p_is_active p"
      "\<not> get_current_stock (inventory_tbl w) (p_id p) < q"
    by (rule process_items_Cons_Inr)
  let ?item = "\<lparr>oi_id = next_id (map oi_id (order_items w)), oi_order_id = oid,
              oi_product_id = p_id p, oi_quantity = q, oi_unit_price = p_trade_price p,
              oi_total_price = Some (f_mul fl (f_of_int fl q) (p_trade_price p))\<rparr>"
  let ?w = "w\<lparr>order_items := order_items w @ [?item]\<rparr>"
  from Cons.prems process_items_step [OF l, of fl oid lines t] have
    "process_items fl ?w oid lines
       (f_add fl t (f_mul fl (f_of_int fl q) (p_trade_price p))) (acc @ [?item]) = Inr r"
    by simp
  from Cons.IH [OF this] have "\<forall>x \<in> set lines. line_ok (products w) (inventory_tbl w) x"
    by simp
  moreover from l have "line_ok (products w) (inventory_tbl w) line"
    by (simp add: line_ok_def)
  ultimately show ?case by simp
qed


lemma process_items_result:
  "process_items fl w oid lines t acc = Inr (t', acc', w') \<Longrightarrow>
   \<exists>new. acc' = acc @ new \<and> w' = w\<lparr>order_items := order_items w @ new\<rparr>
     \<and> list_all2 (item_of_line fl (products w) oid) lines new
     \<and> t' = sum_from fl t (map (line_total fl) new)"
proof (induction lines arbitrary: w t acc)
  case Nil
  then show ?case by (simp add: sum_from_def)
next
  case (Cons line lines)
  from Cons.prems obtain pid q p where
    l: "it_product_id line = Some pid" "it_quantity line = Some q"
      "list_all storable_item acc" "sqlite_integer pid"
      "query_get p_id (products w) pid = Some p" "p_is_active p"
      "\<not> get_current_stock (inventory_tbl w) (p_id p) < q"
    by (rule process_items_Cons_Inr)
  let ?item = "\<lparr>oi_id = next_id (map oi_id (order_items w)), oi_order_id = oid,
              oi_product_id = p_id p, oi_quantity = q, oi_unit_price = p_trade_price p,
              oi_total_price = Some (f_mul fl (f_of_int fl q) (p_trade_price p))\<rparr>"
  let ?w = "w\<lparr>order_items := order_items w @ [?item]\<rparr>"
  from Cons.prems process_items_step [OF l, of fl oid lines t] have
    "process_items fl ?w oid lines
       (f_add fl t (f_mul fl (f_of_int fl q) (p_trade_price p))) (acc @ [?item])
     = Inr (t', acc', w')"
    by simp
  from Cons.IH [OF this] obtain new where new:
    "acc' = (acc @ [?item]) @ new" "w' = ?w\<lparr>order_items := order_items ?w @ new\<rparr>"
    "list_all2 (item_of_line fl (products ?w) oid) lines new"
    "t' = sum_from fl (f_add fl t (f_mul fl (f_of_int fl q) (p_trade_price p)))
            (map (line_total fl) new)"
    by blast
  have item: "item_of_line fl (products w) oid line ?item"
    using l by (simp add: item_of_line_def)
  have tot: "line_total fl ?item = f_mul fl (f_of_int fl q) (p_trade_price p)"
    by (simp add: line_total_def)
  show ?case
  proof (intro exI conjI)
    show "acc' = acc @ (?item # new)" using new(1) by simp
    show "w' = w\<lparr>order_items := order_items w @ (?item # new)\<rparr>" using new(2) by simp
    show "list_all2 (item_of_line fl (products w) oid) (line # lines) (?item # new)"
      using new(3) item by simp
    show "t' = sum_from fl t (map (line_total fl) (?item # new))"
      using new(4) tot by (simp add: sum_from_def)
  qed
qed

subsection \<open>Keys and rows\<close>

lemma next_id_fresh: "x \<in> set ids \<Longrightarrow> x < next_id ids"
  by (induction ids) (auto simp: next_id_def)

lemma update_row_fresh:
  "\<forall>r \<in> set tbl. key r \<noteq> key row \<Longrightarrow> update_row key row tbl = tbl"
  by (induction tbl) (auto simp: update_row_def)

lemma update_row_last:
  "\<forall>r \<in> set tbl. key r \<noteq> key row \<Longrightarrow> key old = key row \<Longrightarrow>
   update_row key row (tbl @ [old]) = tbl @ [row]"
  using update_row_fresh [of tbl key row] by (simp add: update_row_def)

lemmas example_defs = example_db_def example_row_def example_product_def example_user_def
  example_order_def example_line_def example_order_data_def exact_ops_def

lemma query_get_Some: "query_get key tbl k = Some r \<Longrightarrow> r \<in> set tbl \<and> key r = k"
  by (auto simp: query_get_def find_Some_iff)

subsection \<open>The decorator\<close>

lemma token_required_cases:
  "(\<exists>err. token_required f identity db = (Failure 401 err, db))
   \<or> (\<exists>u. identity = Some (u_id u) \<and> sqlite_integer (u_id u)
          \<and> query_get u_id (users db) (u_id u) = Some u \<and> u_is_active u
          \<and> token_required f identity db = f u)"
proof (cases identity)
  case None
  then show ?thesis by (simp add: token_required_def)
next
  case (Some uid)
  show ?thesis
  proof (cases "query_get u_id (users db) uid")
    case None
    with Some show ?thesis by (simp add: token_required_def)
  next
    case (Some u)
    from query_get_Some [OF this] have "u_id u = uid" by simp
    with Some \<open>identity = Some uid\<close> show ?thesis
      by (cases "sqlite_integer uid"; cases "u_is_active u")
         (auto simp: token_required_def)
  qed
qed

lemma token_required_active:
  "sqlite_integer uid \<Longrightarrow> query_get u_id (users db) uid = Some u \<Longrightarrow> u_is_active u \<Longrightarrow>
   token_required f (Some uid) db = f u"
  by (simp add: token_required_def)

lemma token_required_induct:
  assumes "\<And>err. P (Failure 401 err, db)" and "\<And>u. P (f u)"
  shows "P (token_required f identity db)"
  using assms by (simp add: token_required_def split: option.splits)

subsection \<open>Order creation\<close>

lemma create_order_unfold:
  assumes "d_customer_name d = Some name" "d_delivery_area d = Some area"
    "d_items d = Some lines" "lines \<noteq> []"
  shows "create_order fl now u (Some d) db =
    (case process_items fl
            (db\<lparr>orders := orders db @
               [\<lparr>o_id = next_id (map o_id (orders db)), o_sales_person_id = u_id u,
                 o_customer_name = name, o_customer_phone = get_or_empty (d_customer_phone d),
                 o_customer_address = get_or_empty (d_customer_address d),
                 o_delivery_area = area, o_status = ''pending'',
                 o_total_value = f_of_int fl 0, o_delivery_date = None,
                 o_notes = get_or_empty (d_notes d), o_updated_at = now\<rparr>]\<rparr>)
            (next_id (map o_id (orders db))) lines (f_of_int fl 0) [] of
       Inl (code, err) \<Rightarrow> (Failure code err, db)
     | Inr (t, items, w') \<Rightarrow>
         if \<not> list_all storable_item items then (Failure 500 Internal_error, db)
         else (Success 201
                 (\<lparr>o_id = next_id (map o_id (orders db)), o_sales_person_id = u_id u,
                   o_customer_name = name,
                   o_customer_phone = get_or_empty (d_customer_phone d),
                   o_customer_address = get_or_empty (d_customer_address d),
                   o_delivery_area = area, o_status = ''pending'',
                   o_total_value = t, o_delivery_date = None,
                   o_notes = get_or_empty (d_notes d), o_updated_at = now\<rparr>, items),
               w'\<lparr>orders := update_row o_id
                   \<lparr>o_id = next_id (map o_id (orders db)), o_sales_person_id = u_id u,
                     o_customer_name = name,
                     o_customer_phone = get_or_empty (d_customer_phone d),
                     o_customer_address = get_or_empty (d_customer_address d),
                     o_delivery_area = area, o_status = ''pending'',
                     o_total_value = t, o_delivery_date = None,
                     o_notes = get_or_empty (d_notes d), o_updated_at = now\<rparr>
                   (orders w')\<rparr>))"
  using assms
  by (simp add: create_order_def Let_def rollback_def commit_def
        split: sum.splits prod.splits)

lemma create_order_failure:
  assumes "create_order fl now u data db = (Failure code err, db')"
  shows "db' = db \<and> (code = 400 \<or> code = 500)"
  using assms
  by (auto simp: create_order_def Let_def rollback_def commit_def
           split: option.splits if_splits sum.splits prod.splits dest: process_items_code)

lemma item_of_line_storable:
  "list_all2 (item_of_line fl ps oid) lines items \<Longrightarrow>
   \<forall>line \<in> set lines. line_in_range line \<Longrightarrow> list_all storable_item items"
proof (induction lines items rule: list_all2_induct)
  case Nil
  then show ?case by simp
next
  case (Cons line lines item items)
  from Cons.hyps(1) Cons.prems have "storable_item item"
    by (auto simp: item_of_line_def line_in_range_def storable_item_def split: option.splits)
  with Cons show ?case by simp
qed

lemma create_order_failure_in_range:
  assumes "create_order fl now u (Some d) db = (Failure code err, db')"
    and "d_items d = Some lines" and "\<forall>line \<in> set lines. line_in_range line"
  shows "code = 400"
proof (cases "\<exists>name area. d_customer_name d = Some name \<and> d_delivery_area d = Some area
                \<and> lines \<noteq> []")
  case False
  with assms(1,2) show ?thesis
    by (auto simp: create_order_def split: option.splits if_splits)
next
  case True
  then obtain name area where hd: "d_customer_name d = Some name"
    "d_delivery_area d = Some area" "lines \<noteq> []" by blast
  let ?w = "db\<lparr>orders := orders db @
               [\<lparr>o_id = next_id (map o_id (orders db)), o_sales_person_id = u_id u,
                 o_customer_name = name, o_customer_phone = get_or_empty (d_customer_phone d),
                 o_customer_address = get_or_empty (d_customer_address d),
                 o_delivery_area = area, o_status = ''pending'',
                 o_total_value = f_of_int fl 0, o_delivery_date = None,
                 o_notes = get_or_empty (d_notes d), o_updated_at = now\<rparr>]\<rparr>"
  let ?p = "process_items fl ?w (next_id (map o_id (orders db))) lines (f_of_int fl 0) []"
  note co = create_order_unfold [OF hd(1,2) assms(2) hd(3), of fl now u db]
  show ?thesis
  proof (cases ?p)
    case (Inl e)
    obtain c m where e: "e = (c, m)" by (cases e)
    with Inl co assms(1) have "c = code" by simp
    moreover from Inl e process_items_code_in_range [of fl ?w _ lines _ "[]" c m] assms(3)
    have "c = 400" by simp
    ultimately show ?thesis by simp
  next
    case (Inr r)
    obtain t items w' where r: "r = (t, items, w')" by (cases r)
    from process_items_result [of fl ?w _ lines _ "[]" t items w'] Inr r
    have "list_all2 (item_of_line fl (products ?w) (next_id (map o_id (orders db)))) lines items"
      by auto
    from item_of_line_storable [OF this assms(3)] have "list_all storable_item items" .
    with Inr r co assms(1) show ?thesis by simp
  qed
qed

lemma create_order_success:
  assumes "create_order fl now u data db = (Success code (order, items), db')"
  shows "\<exists>d name area lines.
           data = Some d \<and> d_customer_name d = Some name \<and> d_delivery_area d = Some area
           \<and> d_items d = Some lines \<and> lines \<noteq> [] \<and> code = 201
           \<and> (\<forall>line \<in> set lines. line_ok (products db) (inventory_tbl db) line)
           \<and> list_all2 (item_of_line fl (products db) (o_id order)) lines items
           \<and> list_all storable_item items
           \<and> o_total_value order = sum_from fl (f_of_int fl 0) (map (line_total fl) items)
           \<and> o_sales_person_id order = u_id u \<and> o_status order = ''pending''
           \<and> db' = db\<lparr>orders := orders db @ [order], order_items := order_items db @ items\<rparr>"
proof -
  from assms obtain d name area lines where
    hd: "data = Some d" "d_customer_name d = Some name" "d_delivery_area d = Some area"
      "d_items d = Some lines" "lines \<noteq> []"
    by (auto simp: create_order_def split: option.splits if_splits)
  define order0 :: "'a order" where "order0 =
     \<lparr>o_id = next_id (map o_id (orders db)), o_sales_person_id = u_id u,
      o_customer_name = name, o_customer_phone = get_or_empty (d_customer_phone d),
      o_customer_address = get_or_empty (d_customer_address d), o_delivery_area = area,
      o_status = ''pending'', o_total_value = f_of_int fl 0, o_delivery_date = None,
      o_notes = get_or_empty (d_notes d), o_updated_at = now\<rparr>"
  define w where "w = db\<lparr>orders := orders db @ [order0]\<rparr>"
  have co: "create_order fl now u data db =
      (case process_items fl w (o_id order0) lines (f_of_int fl 0) [] of
         Inl (code, err) \<Rightarrow> (Failure code err, db)
       | Inr (total_value, new_items, w') \<Rightarrow>
           if \<not> list_all storable_item new_items then (Failure 500 Internal_error, db)
           else
           (Success 201 (order0\<lparr>o_total_value := total_value\<rparr>, new_items),
            w'\<lparr>orders := update_row o_id (order0\<lparr>o_total_value := total_value\<rparr>)
                                     (orders w')\<rparr>))"
    using hd create_order_unfold [OF hd(2-5), of fl now u db]
    by (simp add: order0_def w_def split: sum.splits prod.splits)
  from assms co obtain t w' where
    pi: "process_items fl w (o_id order0) lines (f_of_int fl 0) [] = Inr (t, items, w')"
    and res: "code = 201" "order = order0\<lparr>o_total_value := t\<rparr>"
      "db' = w'\<lparr>orders := update_row o_id order (orders w')\<rparr>"
      "list_all storable_item items"
    by (auto split: sum.splits prod.splits if_splits)
  from process_items_result [OF pi] have
    w': "w' = w\<lparr>order_items := order_items w @ items\<rparr>"
    and all2: "list_all2 (item_of_line fl (products w) (o_id order0)) lines items"
    and t: "t = sum_from fl (f_of_int fl 0) (map (line_total fl) items)"
    by auto
  from process_items_line_ok [OF pi]
  have ok: "\<forall>line \<in> set lines. line_ok (products db) (inventory_tbl db) line"
    by (simp add: w_def)
  have fresh: "\<forall>r \<in> set (orders db). o_id r \<noteq> o_id order"
  proof
    fix r assume "r \<in> set (orders db)"
    then have "o_id r < next_id (map o_id (orders db))"
      by (intro next_id_fresh) simp
    then show "o_id r \<noteq> o_id order" using res(2) by (simp add: order0_def)
  qed
  have "update_row o_id order (orders db @ [order0]) = orders db @ [order]"
    using fresh res(2) by (intro update_row_last) simp_all
  with res(3) w' have "db' = db\<lparr>orders := orders db @ [order], order_items := order_items db @ items\<rparr>"
    by (simp add: w_def)
  moreover have "o_id order = o_id order0" "o_sales_person_id order = u_id u"
    "o_status order = ''pending''" "o_total_value order = t"
    using res(2) by (simp_all add: order0_def)
  ultimately show ?thesis
    using hd res(1,4) ok all2 t by (simp add: w_def)
qed


lemmas handler_defs = create_order_def post_orders_def get_order_def get_orders_by_id_def
  update_order_status_def put_orders_status_def token_required_def rollback_def commit_def
  get_or_empty_def query_get_def update_row_def get_current_stock_def calculate_totals_def
  calculate_total_price_def next_id_def sqlite_integer_def storable_item_def is_sales_def
  is_admin_def valid_statuses_def Let_def

text \<open>
  C3. Whenever a line of the request names a product that does not exist or is inactive,
  or asks for more than the current stock of its product, the order is rejected and the
  store after the request is the store before it: no order row and no order item row is
  kept, whatever the other lines are and whatever came before the failing line. This holds
  for \<^verbatim>\<open>create_order\<close> with every current user and for the route POST /orders with every
  token. The status of the rejection by \<^verbatim>\<open>create_order\<close> is 400 when the product ids and
  quantities of the request are integers of 64 bits, and 400 or 500 in general.
\<close>

theorem create_order_rejects_whole_order:
  assumes "d_items d = Some lines" and "line \<in> set lines"
    and "it_product_id line = Some pid"
    and "case query_get p_id (products db) pid of
           None \<Rightarrow> True
         | Some p \<Rightarrow> \<not> p_is_active p
             \<or> (\<exists>q. it_quantity line = Some q \<and> get_current_stock (inventory_tbl db) pid < q)"
  shows "(\<exists>code err. create_order fl now u (Some d) db = (Failure code err, db)
            \<and> (code = 400 \<or> code = 500))
       \<and> ((\<forall>l \<in> set lines. line_in_range l) \<longrightarrow>
            (\<exists>err. create_order fl now u (Some d) db = (Failure 400 err, db)))
       \<and> (\<exists>code err. post_orders fl now identity (Some d) db = (Failure code err, db))"
proof -
  have body: "\<exists>code err. create_order fl now v (Some d) db = (Failure code err, db)
      \<and> (code = 400 \<or> code = 500)
      \<and> ((\<forall>l \<in> set lines. line_in_range l) \<longrightarrow> code = 400)" for v
  proof (cases "create_order fl now v (Some d) db")
    case (Pair resp db')
    show ?thesis
    proof (cases resp)
      case (Failure code err)
      with Pair create_order_failure [of fl now v "Some d" db code err db']
        create_order_failure_in_range [of fl now v d db code err db' lines] assms(1)
      show ?thesis by auto
    next
      case (Success code body)
      obtain order items where "body = (order, items)" by (cases body)
      with Pair Success
      have "create_order fl now v (Some d) db = (Success code (order, items), db')" by simp
      from create_order_success [OF this] assms(1,2)
      have ok: "line_ok (products db) (inventory_tbl db) line" by auto
      then obtain q p where p: "it_quantity line = Some q"
        "query_get p_id (products db) pid = Some p" "p_is_active p"
        "q \<le> get_current_stock (inventory_tbl db) (p_id p)"
        using assms(3) by (auto simp: line_ok_def split: option.splits)
      from query_get_Some [OF p(2)] have "p_id p = pid" by simp
      with p assms(4) show ?thesis by simp
    qed
  qed
  have route: "\<exists>code err. post_orders fl now identity (Some d) db = (Failure code err, db)"
    using token_required_cases
      [of "\<lambda>current_user. create_order fl now current_user (Some d) db" identity db] body
    unfolding post_orders_def by metis
  from body [of u] obtain code err where
    b: "create_order fl now u (Some d) db = (Failure code err, db)"
      "code = 400 \<or> code = 500" "(\<forall>l \<in> set lines. line_in_range l) \<longrightarrow> code = 400"
    by blast
  from b(1,2) have "\<exists>code err. create_order fl now u (Some d) db = (Failure code err, db)
            \<and> (code = 400 \<or> code = 500)" by blast
  moreover from b(1,3) have "(\<forall>l \<in> set lines. line_in_range l) \<longrightarrow>
            (\<exists>err. create_order fl now u (Some d) db = (Failure 400 err, db))" by auto
  ultimately show ?thesis using route by simp
qed

text \<open>A good first line followed by a line above the stock (9 of product 2, stock 8), by a
  line for the inactive product 3, by a line for the missing product 9; the first of these
  requests sent to the route with the token of user 2.\<close>

theorem create_order_rejects_whole_order_witness:
  "create_order exact_ops 5 (example_user 2 ''sales1'' ''sales'')
     (Some (example_order_data [example_line 1 2, example_line 2 9])) example_db
   = (Failure 400 (Insufficient_stock ''B'' 8 9), example_db)
   \<and> create_order exact_ops 5 (example_user 2 ''sales1'' ''sales'')
     (Some (example_order_data [example_line 1 2, example_line 3 1])) example_db
   = (Failure 400 (Product_not_found_or_inactive 3), example_db)
   \<and> create_order exact_ops 5 (example_user 2 ''sales1'' ''sales'')
     (Some (example_order_data [example_line 1 2, example_line 9 1])) example_db
   = (Failure 400 (Product_not_found_or_inactive 9), example_db)
   \<and> post_orders exact_ops 5 (Some 2)
     (Some (example_order_data [example_line 1 2, example_line 2 9])) example_db
   = (Failure 400 (Insufficient_stock ''B'' 8 9), example_db)"
proof -
  let ?u = "example_user 2 ''sales1'' ''sales''"
  have a: "\<exists>err. create_order exact_ops 5 ?u
      (Some (example_order_data [example_line 1 2, example_line 2 9])) example_db
      = (Failure 400 err, example_db)"
    using create_order_rejects_whole_order [where line = "example_line 2 9" and pid = 2
          and lines = "[example_line 1 2, example_line 2 9]" and db = example_db
          and d = "example_order_data [example_line 1 2, example_line 2 9]"
          and fl = exact_ops and now = 5 and u = ?u and identity = "Some 2"]
    by (simp add: example_defs query_get_def get_current_stock_def calculate_totals_def
          line_in_range_def sqlite_integer_def Let_def)
  have b: "\<exists>err. create_order exact_ops 5 ?u
      (Some (example_order_data [example_line 1 2, example_line 3 1])) example_db
      = (Failure 400 err, example_db)"
    using create_order_rejects_whole_order [where line = "example_line 3 1" and pid = 3
          and lines = "[example_line 1 2, example_line 3 1]" and db = example_db
          and d = "example_order_data [example_line 1 2, example_line 3 1]"
          and fl = exact_ops and now = 5 and u = ?u and identity = "Some 2"]
    by (simp add: example_defs query_get_def line_in_range_def sqlite_integer_def)
  have c: "\<exists>err. create_order exact_ops 5 ?u
      (Some (example_order_data [example_line 1 2, example_line 9 1])) example_db
      = (Failure 400 err, example_db)"
    using create_order_rejects_whole_order [where line = "example_line 9 1" and pid = 9
          and lines = "[example_line 1 2, example_line 9 1]" and db = example_db
          and d = "example_order_data [example_line 1 2, example_line 9 1]"
          and fl = exact_ops and now = 5 and u = ?u and identity = "Some 2"]
    by (simp add: example_defs query_get_def line_in_range_def sqlite_integer_def)
  show ?thesis using a b c
    by (simp add: handler_defs example_defs)
qed

lemma item_of_line_prices:
  assumes "item_of_line fl ps oid line item"
  shows "(\<exists>p. query_get p_id ps (oi_product_id item) = Some p
            \<and> oi_unit_price item = p_trade_price p)
         \<and> oi_total_price item
             = Some (f_mul fl (f_of_int fl (oi_quantity item)) (oi_unit_price item))
         \<and> it_product_id line = Some (oi_product_id item)
         \<and> it_quantity line = Some (oi_quantity item)
         \<and> oi_order_id item = oid"
proof -
  from assms obtain pid q p where
    l: "it_product_id line = Some pid" "it_quantity line = Some q"
      "query_get p_id ps pid = Some p" "oi_order_id item = oid" "oi_product_id item = p_id p"
      "oi_quantity item = q" "oi_unit_price item = p_trade_price p"
      "oi_total_price item = Some (f_mul fl (f_of_int fl q) (p_trade_price p))"
    by (auto simp: item_of_line_def split: option.splits)
  from query_get_Some [OF l(3)] have "p_id p = pid" by simp
  with l show ?thesis by simp
qed

text \<open>
  C4. When \<^verbatim>\<open>create_order\<close> succeeds, every order item carries as \<open>unit_price\<close> the trade
  price that its product has in the store at that moment, its \<open>total_price\<close> is its quantity
  times that unit price, and the \<open>total_value\<close> of the order is the sum of these line totals,
  added up from 0 in the order of the lines. The items are those of the request's lines,
  they belong to the new order, and the order and the items are the rows added to the store.
\<close>

theorem create_order_prices:
  assumes "create_order fl now u data db = (Success code (order, items), db')"
  shows "(\<forall>item \<in> set items.
            (\<exists>p. query_get p_id (products db) (oi_product_id item) = Some p
                  \<and> oi_unit_price item = p_trade_price p)
            \<and> oi_total_price item
                = Some (f_mul fl (f_of_int fl (oi_quantity item)) (oi_unit_price item))
            \<and> oi_order_id item = o_id order)
         \<and> o_total_value order
             = foldl (f_add fl) (f_of_int fl 0)
                 (map (\<lambda>item. f_mul fl (f_of_int fl (oi_quantity item)) (oi_unit_price item))
                    items)
         \<and> (\<exists>d. data = Some d
               \<and> d_items d = Some (map (\<lambda>item. \<lparr>it_product_id = Some (oi_product_id item),
                                                 it_quantity = Some (oi_quantity item)\<rparr>) items))
         \<and> orders db' = orders db @ [order]
         \<and> order_items db' = order_items db @ items"
proof -
  from create_order_success [OF assms] obtain d lines where
    d: "data = Some d" "d_items d = Some lines"
    and all2: "list_all2 (item_of_line fl (products db) (o_id order)) lines items"
    and tot: "o_total_value order = sum_from fl (f_of_int fl 0) (map (line_total fl) items)"
    and db': "db' = db\<lparr>orders := orders db @ [order], order_items := order_items db @ items\<rparr>"
    by blast
  have each: "\<forall>item \<in> set items.
            (\<exists>p. query_get p_id (products db) (oi_product_id item) = Some p
                  \<and> oi_unit_price item = p_trade_price p)
            \<and> oi_total_price item
                = Some (f_mul fl (f_of_int fl (oi_quantity item)) (oi_unit_price item))
            \<and> oi_order_id item = o_id order"
  proof
    fix item assume "item \<in> set items"
    then obtain i where i: "i < length items" "item = items ! i"
      by (auto simp: in_set_conv_nth)
    with all2 have "item_of_line fl (products db) (o_id order) (lines ! i) item"
      by (simp add: list_all2_conv_all_nth)
    from item_of_line_prices [OF this]
    show "(\<exists>p. query_get p_id (products db) (oi_product_id item) = Some p
                  \<and> oi_unit_price item = p_trade_price p)
            \<and> oi_total_price item
                = Some (f_mul fl (f_of_int fl (oi_quantity item)) (oi_unit_price item))
            \<and> oi_order_id item = o_id order"
      by simp
  qed
  have lines: "lines = map (\<lambda>item. \<lparr>it_product_id = Some (oi_product_id item),
                                    it_quantity = Some (oi_quantity item)\<rparr>) items"
  proof (rule nth_equalityI)
    show "length lines = length (map (\<lambda>item. \<lparr>it_product_id = Some (oi_product_id item),
                                    it_quantity = Some (oi_quantity item)\<rparr>) items)"
      using all2 by (simp add: list_all2_lengthD)
  next
    fix i assume "i < length lines"
    with all2 have i: "i < length items"
      and "item_of_line fl (products db) (o_id order) (lines ! i) (items ! i)"
      by (simp_all add: list_all2_conv_all_nth)
    from item_of_line_prices [OF this(2)] i
    show "lines ! i = map (\<lambda>item. \<lparr>it_product_id = Some (oi_product_id item),
                                    it_quantity = Some (oi_quantity item)\<rparr>) items ! i"
      by simp
  qed
  from tot have "o_total_value order
             = foldl (f_add fl) (f_of_int fl 0)
                 (map (\<lambda>item. f_mul fl (f_of_int fl (oi_quantity item)) (oi_unit_price item))
                    items)"
    by (simp add: sum_from_def line_total_def [abs_def])
  with each d lines db' show ?thesis by simp
qed

text \<open>The example of the specification: 2 of product A (trade price 140) and 1 of
  product B (trade price 100) give the unit prices 140 and 100, the line totals 280 and
  100 and the total value 380.\<close>

theorem create_order_prices_witness:
  "\<exists>order items db'.
     create_order exact_ops 5 (example_user 2 ''sales1'' ''sales'')
       (Some (example_order_data [example_line 1 2, example_line 2 1])) example_db
       = (Success 201 (order, items), db')
     \<and> map oi_unit_price items = [140, 100]
     \<and> map oi_total_price items = [Some 280, Some 100]
     \<and> o_total_value order = 380
     \<and> length (orders db') = 2 \<and> order_items db' = items"
proof -
  let ?u = "example_user 2 ''sales1'' ''sales''"
  let ?d = "example_order_data [example_line 1 2, example_line 2 1]"
  obtain resp db' where r: "create_order exact_ops 5 ?u (Some ?d) example_db = (resp, db')"
    by (cases "create_order exact_ops 5 ?u (Some ?d) example_db")
  then obtain order items where s: "resp = Success 201 (order, items)"
    by (cases resp)
       (auto simp: handler_defs example_defs)
  from r s have c: "create_order exact_ops 5 ?u (Some ?d) example_db
      = (Success 201 (order, items), db')" by simp
  from create_order_prices [OF c]
  have "map (\<lambda>item. \<lparr>it_product_id = Some (oi_product_id item),
                     it_quantity = Some (oi_quantity item)\<rparr>) items
        = [example_line 1 2, example_line 2 1]"
    and p: "\<forall>item \<in> set items.
            (\<exists>p. query_get p_id (products example_db) (oi_product_id item) = Some p
                  \<and> oi_unit_price item = p_trade_price p)
            \<and> oi_total_price item
                = Some (f_mul exact_ops (f_of_int exact_ops (oi_quantity item)) (oi_unit_price item))"
    and t: "o_total_value order
             = foldl (f_add exact_ops) (f_of_int exact_ops 0)
                 (map (\<lambda>item. f_mul exact_ops (f_of_int exact_ops (oi_quantity item)) (oi_unit_price item))
                    items)"
    and o: "orders db' = orders example_db @ [order]"
      "order_items db' = order_items example_db @ items"
    by (simp_all add: example_order_data_def)
  then obtain a b where ab: "items = [a, b]" "oi_product_id a = 1" "oi_quantity a = 2"
    "oi_product_id b = 2" "oi_quantity b = 1"
    by (auto simp: example_line_def map_eq_Cons_conv)
  from p ab have "oi_unit_price a = 140" "oi_unit_price b = 100"
    "oi_total_price a = Some 280" "oi_total_price b = Some 100"
    by (auto simp: example_defs query_get_def)
  with t o ab c show ?thesis
    by (simp add: example_defs)
qed

lemma update_order_status_keeps_inventory:
  "inventory_tbl (snd (update_order_status t1 t2 u oid data db)) = inventory_tbl db"
  by (simp add: update_order_status_def commit_def rollback_def Let_def split: option.splits)

lemma register_keeps_inventory:
  "inventory_tbl (snd (register h data db)) = inventory_tbl db"
  by (simp add: register_def commit_def Let_def split: option.splits)

text \<open>
  C6. \<^verbatim>\<open>create_order\<close> never writes the inventory table: whether the request is accepted
  or rejected, the table after the request is the table before it, so the current stock
  of every product is what it was. An accepted order does not reduce the stock that later
  orders are checked against. The other handlers outside the inventory routes,
  \<^verbatim>\<open>update_order_status\<close> and \<^verbatim>\<open>register\<close>, leave the table as it is too: it changes only
  through the inventory handlers. The same holds of the routes POST /orders and
  PUT /orders/:id/status, for every token.
\<close>

theorem create_order_keeps_inventory:
  "inventory_tbl (snd (create_order fl now u data db)) = inventory_tbl db
   \<and> get_current_stock (inventory_tbl (snd (create_order fl now u data db))) pid
       = get_current_stock (inventory_tbl db) pid
   \<and> inventory_tbl (snd (update_order_status now_updated now_delivered u oid status db))
       = inventory_tbl db
   \<and> inventory_tbl (snd (register generate_password_hash registration db)) = inventory_tbl db
   \<and> inventory_tbl (snd (post_orders fl now identity data db)) = inventory_tbl db
   \<and> get_current_stock (inventory_tbl (snd (post_orders fl now identity data db))) pid
       = get_current_stock (inventory_tbl db) pid
   \<and> inventory_tbl (snd (put_orders_status now_updated now_delivered identity oid status db))
       = inventory_tbl db"
proof -
  have body: "inventory_tbl (snd (create_order fl now v data db)) = inventory_tbl db" for v
  proof -
    obtain resp db' where r: "create_order fl now v data db = (resp, db')"
      by (cases "create_order fl now v data db")
    have "inventory_tbl db' = inventory_tbl db"
    proof (cases resp)
      case (Failure code err)
      with r create_order_failure [of fl now v data db code err db'] show ?thesis by simp
    next
      case (Success code body)
      obtain order items where "body = (order, items)" by (cases body)
      with r Success
      have "create_order fl now v data db = (Success code (order, items), db')" by simp
      from create_order_success [OF this]
      have "db' = db\<lparr>orders := orders db @ [order], order_items := order_items db @ items\<rparr>"
        by blast
      then show ?thesis by simp
    qed
    with r show ?thesis by simp
  qed
  have post: "inventory_tbl (snd (post_orders fl now identity data db)) = inventory_tbl db"
    unfolding post_orders_def
    by (rule token_required_induct) (simp_all add: body)
  have put: "inventory_tbl (snd (put_orders_status now_updated now_delivered identity oid
      status db)) = inventory_tbl db"
    unfolding put_orders_status_def
    by (rule token_required_induct) (simp_all add: update_order_status_keeps_inventory)
  from body [of u] post put show ?thesis
    by (simp add: update_order_status_keeps_inventory register_keeps_inventory)
qed

text \<open>An accepted order for the whole stock of product 1 (15 pieces) leaves that stock
  at 15.\<close>

theorem create_order_keeps_inventory_witness:
  "(\<exists>order items.
      fst (create_order exact_ops 5 (example_user 2 ''sales1'' ''sales'')
             (Some (example_order_data [example_line 1 15])) example_db)
        = Success 201 (order, items))
   \<and> get_current_stock
         (inventory_tbl (snd (create_order exact_ops 5 (example_user 2 ''sales1'' ''sales'')
             (Some (example_order_data [example_line 1 15])) example_db))) 1 = 15
   \<and> inventory_tbl (snd (create_order exact_ops 5 (example_user 2 ''sales1'' ''sales'')
             (Some (example_order_data [example_line 1 15])) example_db))
       = inventory_tbl example_db"
proof -
  let ?c = "create_order exact_ops 5 (example_user 2 ''sales1'' ''sales'')
             (Some (example_order_data [example_line 1 15])) example_db"
  have "\<exists>order items. fst ?c = Success 201 (order, items)"
    by (simp add: handler_defs example_defs)
  moreover have "get_current_stock (inventory_tbl example_db) 1 = 15"
    by (simp add: example_defs get_current_stock_def calculate_totals_def Let_def)
  ultimately show ?thesis
    using create_order_keeps_inventory [where fl = exact_ops and now = 5
        and u = "example_user 2 ''sales1'' ''sales''"
        and data = "Some (example_order_data [example_line 1 15])" and db = example_db
        and pid = 1]
    by simp
qed




subsection \<open>Order status and access\<close>







text \<open>
  C8 (as amended). For GET /orders/:id with the token of an existing account of role
  \<open>sales\<close> and an existing order: an account that is not active is answered 401; an active
  one is answered 403 when the order's \<open>sales_person_id\<close> is not the caller's id and 200
  with the order and its items when it is. The 401 and the 403 carry no order data. The
  ids, being those of rows of the store, are integers of 64 bits.
\<close>

theorem get_orders_by_id_sales_access:
  assumes "sqlite_integer uid" and "query_get u_id (users db) uid = Some u"
    and "is_sales u"
    and "sqlite_integer oid" and "query_get o_id (orders db) oid = Some order"
  shows "(\<not> u_is_active u \<longrightarrow>
            get_orders_by_id (Some uid) oid db = (Failure 401 User_not_found_or_inactive, db))
         \<and> (u_is_active u \<and> o_sales_person_id order \<noteq> uid \<longrightarrow>
            get_orders_by_id (Some uid) oid db = (Failure 403 View_own_orders_only, db))
         \<and> (u_is_active u \<and> o_sales_person_id order = uid \<longrightarrow>
              (\<exists>items sales_person.
                 get_orders_by_id (Some uid) oid db
                   = (Success 200 (order, items, sales_person), db)
                 \<and> map fst items = filter (\<lambda>item. oi_order_id item = oid) (order_items db)))"
proof -
  from query_get_Some [OF assms(2)] have uid: "u_id u = uid" by simp
  from query_get_Some [OF assms(5)] have oid: "o_id order = oid" by simp
  have inactive: "get_orders_by_id (Some uid) oid db
      = (Failure 401 User_not_found_or_inactive, db)" if "\<not> u_is_active u"
    using that assms(1,2) by (simp add: get_orders_by_id_def token_required_def)
  have active: "get_orders_by_id (Some uid) oid db = (get_order u db oid, db)"
    if "u_is_active u"
    using token_required_active [OF assms(1,2) that,
        of "\<lambda>current_user. (get_order current_user db oid, db)"]
    by (simp add: get_orders_by_id_def)
  have other: "get_order u db oid = Failure 403 View_own_orders_only"
    if "o_sales_person_id order \<noteq> uid"
    using that assms(3-5) uid by (simp add: get_order_def)
  have own: "\<exists>items sales_person.
      get_order u db oid = Success 200 (order, items, sales_person)
      \<and> map fst items = filter (\<lambda>item. oi_order_id item = oid) (order_items db)"
    if "o_sales_person_id order = uid"
    using that assms(4,5) uid oid by (simp add: get_order_def Let_def comp_def)
  from inactive active other own show ?thesis by auto
qed

text \<open>Order 1 belongs to user 2: with the token of user 3 the answer is 403, with that of
  user 2 it is 200 and the order; once user 2 is deactivated it is 401.\<close>

theorem get_orders_by_id_sales_access_witness:
  "get_orders_by_id (Some 3) 1 example_db = (Failure 403 View_own_orders_only, example_db)
   \<and> get_orders_by_id (Some 2) 1 example_db
     = (Success 200 (example_order 1 2 ''pending'', [], Some (2, ''sales1'', ''sales1'')),
        example_db)
   \<and> get_orders_by_id (Some 2) 1 example_db_user_2_inactive
     = (Failure 401 User_not_found_or_inactive, example_db_user_2_inactive)"
proof -
  have ids: "sqlite_integer 3" "sqlite_integer 2" "sqlite_integer 1"
    by (simp_all add: sqlite_integer_def)
  have u3: "query_get u_id (users example_db) 3 = Some (example_user 3 ''sales2'' ''sales'')"
    "is_sales (example_user 3 ''sales2'' ''sales'')"
    and u2: "query_get u_id (users example_db) 2 = Some (example_user 2 ''sales1'' ''sales'')"
    "is_sales (example_user 2 ''sales1'' ''sales'')"
    and u2': "query_get u_id (users example_db_user_2_inactive) 2
       = Some ((example_user 2 ''sales1'' ''sales'')\<lparr>u_is_active := False\<rparr>)"
    "is_sales ((example_user 2 ''sales1'' ''sales'')\<lparr>u_is_active := False\<rparr>)"
    and o: "query_get o_id (orders example_db) 1 = Some (example_order 1 2 ''pending'')"
    "query_get o_id (orders example_db_user_2_inactive) 1
       = Some (example_order 1 2 ''pending'')"
    by (simp_all add: query_get_def is_sales_def example_db_user_2_inactive_def example_defs)
  note a = get_orders_by_id_sales_access [OF ids(1) u3 ids(3) o(1)]
    and b = get_orders_by_id_sales_access [OF ids(2) u2 ids(3) o(1)]
    and c = get_orders_by_id_sales_access [OF ids(2) u2' ids(3) o(2)]
  have "get_orders_by_id (Some 2) 1 example_db
     = (Success 200 (example_order 1 2 ''pending'', [], Some (2, ''sales1'', ''sales1'')),
        example_db)"
    by (simp add: handler_defs example_defs)
  with a c show ?thesis by (simp add: example_defs)
qed

text \<open>
  C8 as stated does not hold for every caller of role \<open>sales\<close>: the decorator answers an
  account that is not active with 401 before the handler runs. User 2, of role \<open>sales\<close> and
  deactivated, asks for order 1, which is that user's own, and gets neither 200 nor 403.
\<close>

theorem inactive_sales_caller_gets_401:
  "query_get u_id (users example_db_user_2_inactive) 2
     = Some ((example_user 2 ''sales1'' ''sales'')\<lparr>u_is_active := False\<rparr>)
   \<and> is_sales ((example_user 2 ''sales1'' ''sales'')\<lparr>u_is_active := False\<rparr>)
   \<and> map_option o_sales_person_id (query_get o_id (orders example_db_user_2_inactive) 1)
       = Some 2
   \<and> fst (get_orders_by_id (Some 2) 1 example_db_user_2_inactive)
       = Failure 401 User_not_found_or_inactive"
  by (simp add: handler_defs example_db_user_2_inactive_def example_defs)

subsection \<open>Inventory records\<close>














subsection \<open>Registration\<close>

text \<open>
  C9. Every account that \<^verbatim>\<open>register\<close> creates has the role \<open>sales\<close> and is no admin; it is
  the one row added to the users. A failed registration adds nothing. A \<^verbatim>\<open>role\<close> in the body
  has no effect: the handler gives the same result whatever value that key has.
\<close>

theorem register_always_sales:
  "(case register generate_password_hash data db of
      (Success code user, db') \<Rightarrow>
        code = 201 \<and> u_role user = ''sales'' \<and> \<not> is_admin user
        \<and> users db' = users db @ [user]
    | (Failure code err, db') \<Rightarrow> db' = db)
   \<and> register generate_password_hash (map_option (\<lambda>d. d\<lparr>r_role := role\<rparr>) data) db
       = register generate_password_hash data db"
  by (cases data) (simp_all add: register_def is_admin_def commit_def Let_def)

text \<open>A registration that asks for the role \<open>admin\<close> gets an account of role \<open>sales\<close>.\<close>

theorem register_always_sales_witness:
  "(\<exists>user db'.
      register (\<lambda>p. ''pbkdf2'') (Some (example_register_data ''newsales'' (Some ''admin'')))
        example_db = (Success 201 user, db')
      \<and> u_role user = ''sales'' \<and> map u_role (users db') = [''admin'', ''sales'', ''sales'', ''sales''])
   \<and> register (\<lambda>p. ''pbkdf2'') (Some (example_register_data ''sales1'' (Some ''admin'')))
        example_db = (Failure 400 Username_exists, example_db)"
  using register_always_sales [where generate_password_hash = "\<lambda>p. ''pbkdf2''"
      and data = "Some (example_register_data ''newsales'' (Some ''admin''))"
      and db = example_db and role = None]
  by (simp add: register_def missing_def strip_def is_space_def get_or_empty_def commit_def
        next_id_def example_register_data_def example_defs Let_def)

end
